theory Spec2Isabelle
  imports Complex_Main "HOL-Library.AList"
begin

section \<open>Exceptions\<close>

text \<open>
  The exceptions that the code of \<^verbatim>\<open>_osFs.py\<close> raises itself, and the ones of the
  Python runtime and of the operating system that pass through it. All of them are
  subclasses of Python's \<^verbatim>\<open>Exception\<close>, so an \<^verbatim>\<open>except Exception\<close> clause catches each.
\<close>

datatype exn =
    NullFileLocation            \<comment> \<open>\<^verbatim>\<open>Exception("Null file location")\<close>, line 184\<close>
  | FileNotOpen                 \<comment> \<open>\<^verbatim>\<open>Exception("File not open")\<close>, line 262\<close>
  | NoFileException string      \<comment> \<open>\<^verbatim>\<open>ezFs.NoFileException(path)\<close>, line 340\<close>
  | NotImplementedError
  | ValueError string
  | TypeError string
  | AttributeError string
  | KeyError nat
  | UnboundLocalError string
  | RecursionError
  | OverflowError string
  | ImportError string
  | UnsupportedOperation string
  | FileNotFoundError string
  | IsADirectoryError string
  | NotADirectoryError string
  | FileExistsError string
  | OSError string
  | UserError string            \<comment> \<open>whatever a caller's callback raises\<close>

text \<open>A call ends with a value or with an exception; the state is kept in both cases.\<close>

datatype ('a, 's) res = Ok 'a 's | Raise exn 's

section \<open>The watch subsystem: \<^verbatim>\<open>OsItem.addWatch\<close>\<close>

text \<open>
  \<^verbatim>\<open>addWatch\<close> (lines 46 to 160) picks one of three backends by \<^verbatim>\<open>os.name\<close> and then
  enters a \<^verbatim>\<open>while True\<close> loop. What the host answers is an input of the model: each
  system call reads its result from the \<open>host\<close> record, by the number of calls of that
  kind made before it. The user's callback is a function of the calls it has received so
  far, of the path and of the operation tag; it answers \<open>None\<close> when it returns and
  \<open>Some e\<close> when it raises \<open>e\<close>.
\<close>

type_synonym watchFn = "(string \<times> string) list \<Rightarrow> string \<Rightarrow> string \<Rightarrow> exn option"

datatype printed = Exc exn | Msg string

record host =
  os_name :: string
  os_sep :: string
  os_getcwd :: string
  path_join :: "string \<Rightarrow> string \<Rightarrow> string"
    \<comment> \<open>\<^verbatim>\<open>os.path.join\<close> of the host: \<^verbatim>\<open>ntpath.join\<close> on Windows, \<^verbatim>\<open>posixpath.join\<close> elsewhere\<close>
  CreateFile_error :: "exn option"
    \<comment> \<open>\<^verbatim>\<open>win32file.CreateFile\<close>, line 69\<close>
  ReadDirectoryChangesW :: "nat \<Rightarrow> exn + (nat \<times> string) list"
    \<comment> \<open>the batch of (action, filename) records of the i-th call, line 90\<close>
  has_SIGIO :: bool
    \<comment> \<open>\<^verbatim>\<open>hasattr(signal,'SIGIO')\<close>, line 120\<close>
  os_open_error :: "exn option"
    \<comment> \<open>\<^verbatim>\<open>os.open(source,os.O_RDONLY)\<close>, line 124\<close>
  fcntl_error :: "exn option"
    \<comment> \<open>what lines 126 to 128 raise, if anything\<close>
  sigio_during_sleep :: "nat \<Rightarrow> nat"
    \<comment> \<open>how many SIGIO signals arrive during the i-th sleep\<close>
  os_stat_mtime :: "nat \<Rightarrow> exn + nat"
    \<comment> \<open>\<^verbatim>\<open>os.stat(source).st_mtime\<close>, i-th call\<close>
  os_listdir_names :: "nat \<Rightarrow> exn + string list"
    \<comment> \<open>\<^verbatim>\<open>os.listdir(source)\<close>, i-th call\<close>

record watch_state =
  calls :: "(string \<times> string) list"   \<comment> \<open>the invocations of the callback, oldest first\<close>
  printed :: "printed list"             \<comment> \<open>what \<^verbatim>\<open>print\<close> has written\<close>
  slept :: "rat list"                   \<comment> \<open>the arguments of the \<^verbatim>\<open>time.sleep\<close> calls, in seconds\<close>
  n_stat :: nat                         \<comment> \<open>\<^verbatim>\<open>os.stat\<close> calls made\<close>
  n_listdir :: nat                      \<comment> \<open>\<^verbatim>\<open>os.listdir\<close> calls made\<close>

definition init_watch :: watch_state where
  "init_watch = \<lparr>calls = [], printed = [], slept = [], n_stat = 0, n_listdir = 0\<rparr>"

text \<open>
  The outcome of running the function for a bounded number of loop iterations:
  it has returned to its caller, it has raised, or it is still inside its loop when
  the iterations are used up.
\<close>

datatype outcome = Returned watch_state | Raised exn watch_state | Running watch_state

definition call :: "watchFn \<Rightarrow> string \<Rightarrow> string \<Rightarrow> watch_state \<Rightarrow> exn option \<times> watch_state" where
  "call watchFn path operation st =
     (watchFn (calls st) path operation, st\<lparr>calls := calls st @ [(path, operation)]\<rparr>)"

definition print_exn :: "exn \<Rightarrow> watch_state \<Rightarrow> watch_state" where
  "print_exn e st = st\<lparr>printed := printed st @ [Exc e]\<rparr>"

definition print_msg :: "string \<Rightarrow> watch_state \<Rightarrow> watch_state" where
  "print_msg m st = st\<lparr>printed := printed st @ [Msg m]\<rparr>"

subsection \<open>The event-queue backend (\<^verbatim>\<open>os.name=='nt'\<close>), lines 58 to 109\<close>

definition ACTIONS :: "(nat \<times> string) list" where
  "ACTIONS = [(1, ''CREATE''), (2, ''DELETE''), (3, ''UPDATE''), (4, ''CREATE''), (5, ''RENAME'')]"

text \<open>
  \<^verbatim>\<open>posixpath.join\<close> of two parts: an absolute second part stands alone; otherwise the
  parts are put together, with a slash between them unless the first is empty or ends
  with one.
\<close>

definition os_path_join :: "string \<Rightarrow> string \<Rightarrow> string" where
  "os_path_join a b =
     (if take 1 b = ''/'' then b
      else if a = [] \<or> last a = CHR ''/'' then a @ b
      else a @ ''/'' @ b)"

text \<open>
  Lines 103 to 109: the \<^verbatim>\<open>for\<close> loop over one batch. The subscript \<^verbatim>\<open>ACTIONS[action]\<close>
  and the call are both inside the \<^verbatim>\<open>try\<close>, so a missing key and a raising callback
  are printed and the loop goes on to the next record.
\<close>

fun deliver ::
  "watchFn \<Rightarrow> (string \<Rightarrow> string \<Rightarrow> string) \<Rightarrow> string \<Rightarrow> (nat \<times> string) list \<Rightarrow> watch_state
     \<Rightarrow> watch_state" where
  "deliver watchFn join source [] st = st"
| "deliver watchFn join source ((action, filename) # results) st =
     (case map_of ACTIONS action of
        None \<Rightarrow> deliver watchFn join source results (print_exn (KeyError action) st)
      | Some operation \<Rightarrow>
          (case call watchFn (join source filename) operation st of
             (Some e, st') \<Rightarrow> deliver watchFn join source results (print_exn e st')
           | (None, st') \<Rightarrow> deliver watchFn join source results st'))"

text \<open>Lines 78 to 109: \<^verbatim>\<open>while True\<close>; \<open>i\<close> counts the calls of \<^verbatim>\<open>ReadDirectoryChangesW\<close>.\<close>

fun nt_loop :: "nat \<Rightarrow> host \<Rightarrow> watchFn \<Rightarrow> string \<Rightarrow> nat \<Rightarrow> watch_state \<Rightarrow> outcome" where
  "nt_loop 0 h watchFn source i st = Running st"
| "nt_loop (Suc fuel) h watchFn source i st =
     (case ReadDirectoryChangesW h i of
        Inl e \<Rightarrow> Raised e st
      | Inr results \<Rightarrow>
          nt_loop fuel h watchFn source (Suc i) (deliver watchFn (path_join h) source results st))"

subsection \<open>The local name \<^verbatim>\<open>time\<close>\<close>

text \<open>
  \<^verbatim>\<open>import time\<close> stands at lines 112 and 148, inside two branches of the function and
  nowhere at module level. An import statement binds a local name, so \<^verbatim>\<open>time\<close> is a
  local variable of \<^verbatim>\<open>addWatch\<close>, bound only once one of these two statements has run;
  reading it before raises \<^verbatim>\<open>UnboundLocalError\<close>. The flag says whether it is bound.
  With the name bound, \<^verbatim>\<open>time.sleep\<close> turns its argument into a signed 64-bit count of
  nanoseconds, raising \<^verbatim>\<open>OverflowError\<close> when it does not fit, and raises
  \<^verbatim>\<open>ValueError\<close> for a negative length.
\<close>

definition time_sleep :: "bool \<Rightarrow> rat \<Rightarrow> watch_state \<Rightarrow> exn option \<times> watch_state" where
  "time_sleep time_bound secs st =
     (if \<not> time_bound then (Some (UnboundLocalError ''time''), st)
      else if secs * 1000000000 < - 9223372036854775808
              \<or> 9223372036854775808 < secs * 1000000000 then
        (Some (OverflowError ''timestamp too large to convert to C _PyTime_t''), st)
      else if secs < 0 then (Some (ValueError ''sleep length must be non-negative''), st)
      else (None, st\<lparr>slept := slept st @ [secs]\<rparr>))"

subsection \<open>The signal-driven backend (\<^verbatim>\<open>os.name=='posix'\<close>), lines 110 to 132\<close>

text \<open>
  Lines 114 to 119: the handler calls the callback with no \<^verbatim>\<open>try\<close> around it. Python
  runs a signal handler in the main thread, between two bytecodes; what it raises is
  raised there, here inside the sleep of line 132.
\<close>

fun run_handler :: "nat \<Rightarrow> watchFn \<Rightarrow> string \<Rightarrow> watch_state \<Rightarrow> exn option \<times> watch_state" where
  "run_handler 0 watchFn source st = (None, st)"
| "run_handler (Suc n) watchFn source st =
     (case call watchFn source ''UPDATE'' st of
        (Some e, st') \<Rightarrow> (Some e, st')
      | (None, st') \<Rightarrow> run_handler n watchFn source st')"

fun posix_loop :: "nat \<Rightarrow> host \<Rightarrow> watchFn \<Rightarrow> string \<Rightarrow> rat \<Rightarrow> bool \<Rightarrow> nat \<Rightarrow> watch_state \<Rightarrow> outcome" where
  "posix_loop 0 h watchFn source pollingInterval installed i st = Running st"
| "posix_loop (Suc fuel) h watchFn source pollingInterval installed i st =
     (case time_sleep True (pollingInterval * 1000) st of
        (Some e, st1) \<Rightarrow> Raised e st1
      | (None, st1) \<Rightarrow>
          (case run_handler (if installed then sigio_during_sleep h i else 0) watchFn source st1 of
             (Some e, st2) \<Rightarrow> Raised e st2
           | (None, st2) \<Rightarrow> posix_loop fuel h watchFn source pollingInterval installed (Suc i) st2))"

subsection \<open>The polling backend, lines 133 to 160\<close>

definition os_stat :: "host \<Rightarrow> watch_state \<Rightarrow> (exn + nat) \<times> watch_state" where
  "os_stat h st = (os_stat_mtime h (n_stat st), st\<lparr>n_stat := Suc (n_stat st)\<rparr>)"

definition os_listdir_poll :: "host \<Rightarrow> watch_state \<Rightarrow> (exn + string list) \<times> watch_state" where
  "os_listdir_poll h st = (os_listdir_names h (n_listdir st), st\<lparr>n_listdir := Suc (n_listdir st)\<rparr>)"

text \<open>Lines 143 to 146: the handler of the \<^verbatim>\<open>try\<close>; its own call of the callback is unguarded.\<close>

definition on_except :: "watchFn \<Rightarrow> string \<Rightarrow> exn \<Rightarrow> watch_state \<Rightarrow> exn option \<times> watch_state" where
  "on_except watchFn source e st = call watchFn source ''DELETE'' (print_exn e st)"

text \<open>
  Lines 139 to 146, one pass of the body after the sleep. The result is the exception
  that leaves the body (if any), the value of \<^verbatim>\<open>lastchange\<close>, and the state.
\<close>

definition poll_file_body ::
  "host \<Rightarrow> watchFn \<Rightarrow> string \<Rightarrow> nat \<Rightarrow> watch_state \<Rightarrow> exn option \<times> nat \<times> watch_state" where
  "poll_file_body h watchFn source lastchange st =
     (case os_stat h st of
        (Inl e, st1) \<Rightarrow>
          (case on_except watchFn source e st1 of (r, st2) \<Rightarrow> (r, lastchange, st2))
      | (Inr m, st1) \<Rightarrow>
          if m \<noteq> lastchange then
            (case os_stat h st1 of
               (Inl e, st2) \<Rightarrow>
                 (case on_except watchFn source e st2 of (r, st3) \<Rightarrow> (r, lastchange, st3))
             | (Inr m2, st2) \<Rightarrow>
                 (case call watchFn source ''UPDATE'' st2 of
                    (Some e, st3) \<Rightarrow>
                      (case on_except watchFn source e st3 of (r, st4) \<Rightarrow> (r, m2, st4))
                  | (None, st3) \<Rightarrow> (None, m2, st3)))
          else (None, lastchange, st1))"

text \<open>Lines 137 to 146. \<open>time_bound\<close> is the binding of the local name \<^verbatim>\<open>time\<close> at line 138.\<close>

fun poll_file_loop ::
  "nat \<Rightarrow> host \<Rightarrow> watchFn \<Rightarrow> string \<Rightarrow> rat \<Rightarrow> bool \<Rightarrow> nat \<Rightarrow> watch_state \<Rightarrow> outcome" where
  "poll_file_loop 0 h watchFn source pollingInterval time_bound lastchange st = Running st"
| "poll_file_loop (Suc fuel) h watchFn source pollingInterval time_bound lastchange st =
     (case time_sleep time_bound (pollingInterval * 1000) st of
        (Some e, st1) \<Rightarrow> Raised e st1
      | (None, st1) \<Rightarrow>
          (case poll_file_body h watchFn source lastchange st1 of
             (Some e, lc, st2) \<Rightarrow> Raised e st2
           | (None, lc, st2) \<Rightarrow>
               poll_file_loop fuel h watchFn source pollingInterval time_bound lc st2))"

text \<open>\<^verbatim>\<open>dict([(f, None) for f in names])\<close>: the keys, each once, in the order of first insertion.\<close>

definition dict_keys :: "string list \<Rightarrow> string list" where
  "dict_keys names = rev (remdups (rev names))"

text \<open>Lines 155 and 156: one unguarded call per added name.\<close>

fun call_each :: "watchFn \<Rightarrow> string \<Rightarrow> string \<Rightarrow> string list \<Rightarrow> watch_state \<Rightarrow> exn option \<times> watch_state" where
  "call_each watchFn source operation [] st = (None, st)"
| "call_each watchFn source operation (filename # added) st =
     (case call watchFn source operation st of
        (Some e, st') \<Rightarrow> (Some e, st')
      | (None, st') \<Rightarrow> call_each watchFn source operation added st')"

text \<open>Lines 152 to 160, one pass of the body after the sleep.\<close>

definition poll_dir_body ::
  "host \<Rightarrow> watchFn \<Rightarrow> string \<Rightarrow> string list \<Rightarrow> watch_state
     \<Rightarrow> exn option \<times> string list \<times> watch_state" where
  "poll_dir_body h watchFn source before0 st =
     (case os_listdir_poll h st of
        (Inl e, st1) \<Rightarrow> (Some e, before0, st1)
      | (Inr names, st1) \<Rightarrow>
          (let after = dict_keys names;
               added = filter (\<lambda>f. f \<notin> set before0) after;
               removed = filter (\<lambda>f. f \<notin> set after) before0
           in case call_each watchFn source ''CREATE'' added st1 of
                (Some e, st2) \<Rightarrow> (Some e, before0, st2)
              | (None, st2) \<Rightarrow>
                  if removed \<noteq> [] then
                    (case call watchFn source ''REMOVE'' st2 of
                       (Some e, st3) \<Rightarrow> (Some e, before0, st3)
                     | (None, st3) \<Rightarrow> (None, after, st3))
                  else (None, after, st2)))"

fun poll_dir_loop ::
  "nat \<Rightarrow> host \<Rightarrow> watchFn \<Rightarrow> string \<Rightarrow> rat \<Rightarrow> bool \<Rightarrow> string list \<Rightarrow> watch_state \<Rightarrow> outcome" where
  "poll_dir_loop 0 h watchFn source pollingInterval time_bound before0 st = Running st"
| "poll_dir_loop (Suc fuel) h watchFn source pollingInterval time_bound before0 st =
     (case time_sleep time_bound (pollingInterval * 1000) st of
        (Some e, st1) \<Rightarrow> Raised e st1
      | (None, st1) \<Rightarrow>
          (case poll_dir_body h watchFn source before0 st1 of
             (Some e, b, st2) \<Rightarrow> Raised e st2
           | (None, b, st2) \<Rightarrow>
               poll_dir_loop fuel h watchFn source pollingInterval time_bound b st2))"

subsection \<open>\<^verbatim>\<open>addWatch\<close>\<close>

text \<open>
  \<open>fuel\<close> bounds the iterations of the \<^verbatim>\<open>while True\<close> loop that is entered; \<open>isDir\<close> is
  \<^verbatim>\<open>self.isDir\<close> and \<open>source\<close> is \<^verbatim>\<open>self.abspath\<close>. The function has no \<^verbatim>\<open>return\<close>
  statement and none of its loops has a \<^verbatim>\<open>break\<close>.
\<close>

definition addWatch :: "nat \<Rightarrow> host \<Rightarrow> bool \<Rightarrow> string \<Rightarrow> watchFn \<Rightarrow> rat \<Rightarrow> outcome" where
  "addWatch fuel h isDir source watchFn pollingInterval =
     (if os_name h = ''nt'' then
        (case CreateFile_error h of
           Some e \<Rightarrow> Raised e init_watch
         | None \<Rightarrow> nt_loop fuel h watchFn source 0 init_watch)
      else if os_name h = ''posix'' then
        (let st1 = (if has_SIGIO h then init_watch
                    else print_msg ''WARN: unable to import signal.SIGIO'' init_watch)
         in case os_open_error h of
              Some e \<Rightarrow> Raised e st1
            | None \<Rightarrow>
                (case fcntl_error h of
                   None \<Rightarrow>
                     posix_loop fuel h watchFn source pollingInterval (has_SIGIO h) 0 st1
                 | Some e \<Rightarrow>
                     (case e of
                        ImportError m \<Rightarrow>
                          posix_loop fuel h watchFn source pollingInterval (has_SIGIO h) 0
                            (print_msg ''WARN: unable to import fcntl'' st1)
                      | _ \<Rightarrow> Raised e st1)))
      else if \<not> isDir then
        (case os_stat h init_watch of
           (Inl e, st1) \<Rightarrow> Raised e st1
         | (Inr lastchange, st1) \<Rightarrow>
             poll_file_loop fuel h watchFn source pollingInterval False lastchange st1)
      else
        (case os_listdir_poll h init_watch of
           (Inl e, st1) \<Rightarrow> Raised e st1
         | (Inr names, st1) \<Rightarrow>
             poll_dir_loop fuel h watchFn source pollingInterval True (dict_keys names) st1))"

section \<open>The backing store and Python's file objects\<close>

text \<open>
  What the code reaches through \<^verbatim>\<open>os\<close>, \<^verbatim>\<open>os.path\<close>, \<^verbatim>\<open>shutil\<close> and the builtin
  \<^verbatim>\<open>open\<close>. The store maps a path to a directory or to a file with its bytes; the
  entries are kept in enumeration order. Two more fields say which error, if any, the
  operating system reports when a stream on a path is closed and when a path is removed
  (an I/O error, "in use", "permission denied").
\<close>

datatype node = Dir | File string

record os =
  nodes :: "(string \<times> node) list"
  close_fault :: "string \<Rightarrow> exn option"
  remove_fault :: "string \<Rightarrow> exn option"

definition os_path_isdir :: "os \<Rightarrow> string \<Rightarrow> bool" where
  "os_path_isdir os path = (map_of (nodes os) path = Some Dir)"

definition os_path_exists :: "os \<Rightarrow> string \<Rightarrow> bool" where
  "os_path_exists os path = (map_of (nodes os) path \<noteq> None)"

text \<open>The names directly below \<open>path\<close>, in the order of the store.\<close>

definition names_below :: "string \<Rightarrow> (string \<times> node) list \<Rightarrow> string list" where
  "names_below path entries =
     (let prefix = os_path_join path [] in
      map (\<lambda>(q, n). drop (length prefix) q)
        (filter (\<lambda>(q, n). take (length prefix) q = prefix \<and> length prefix < length q
                           \<and> CHR ''/'' \<notin> set (drop (length prefix) q)) entries))"

definition os_listdir :: "os \<Rightarrow> string \<Rightarrow> exn + string list" where
  "os_listdir os path =
     (case map_of (nodes os) path of
        None \<Rightarrow> Inl (FileNotFoundError path)
      | Some (File b) \<Rightarrow> Inl (NotADirectoryError path)
      | Some Dir \<Rightarrow> Inr (names_below path (nodes os)))"

definition drop_node :: "string \<Rightarrow> os \<Rightarrow> os" where
  "drop_node path os = os\<lparr>nodes := filter (\<lambda>(q, n). q \<noteq> path) (nodes os)\<rparr>"

text \<open>\<^verbatim>\<open>os.remove\<close>: one file goes, or nothing changes.\<close>

definition os_remove :: "os \<Rightarrow> string \<Rightarrow> (unit, os) res" where
  "os_remove os path =
     (case map_of (nodes os) path of
        None \<Rightarrow> Raise (FileNotFoundError path) os
      | Some Dir \<Rightarrow> Raise (IsADirectoryError path) os
      | Some (File b) \<Rightarrow>
          (case remove_fault os path of
             Some e \<Rightarrow> Raise e os
           | None \<Rightarrow> Ok () (drop_node path os)))"

text \<open>\<^verbatim>\<open>os.rmdir\<close>: one empty directory goes, or nothing changes.\<close>

definition os_rmdir :: "os \<Rightarrow> string \<Rightarrow> (unit, os) res" where
  "os_rmdir os path =
     (case map_of (nodes os) path of
        None \<Rightarrow> Raise (FileNotFoundError path) os
      | Some (File b) \<Rightarrow> Raise (NotADirectoryError path) os
      | Some Dir \<Rightarrow>
          if names_below path (nodes os) \<noteq> [] then Raise (OSError ''Directory not empty'') os
          else (case remove_fault os path of
                  Some e \<Rightarrow> Raise e os
                | None \<Rightarrow> Ok () (drop_node path os)))"

text \<open>
  \<^verbatim>\<open>shutil.rmtree\<close> with its default error handling: the path must be an existing
  directory; its entries are taken in enumeration order, a subdirectory being walked in
  the same way and a file unlinked, and the directory itself is removed last. The first
  refusal is raised at once, and what was removed before it stays removed. The walk is a
  list of steps still to do. \<open>fuel\<close> bounds the number of steps taken, so that the walk
  is total; \<^verbatim>\<open>shutil_rmtree\<close> gives it two steps per entry of the store and two more, and
  a walk that uses them up ends in \<^verbatim>\<open>RecursionError\<close>.
\<close>

datatype task = Walk string | Unlink string | Rmdir string

fun rmtree_run :: "nat \<Rightarrow> task list \<Rightarrow> os \<Rightarrow> (unit, os) res" where
  "rmtree_run fuel [] os = Ok () os"
| "rmtree_run 0 (t # ts) os = Raise RecursionError os"
| "rmtree_run (Suc fuel) (Walk p # ts) os =
     (case os_listdir os p of
        Inl e \<Rightarrow> Raise e os
      | Inr names \<Rightarrow>
          rmtree_run fuel
            (map (\<lambda>c. if os_path_isdir os (os_path_join p c) then Walk (os_path_join p c)
                      else Unlink (os_path_join p c)) names
             @ Rmdir p # ts) os)"
| "rmtree_run (Suc fuel) (Unlink p # ts) os =
     (case os_remove os p of
        Raise e os' \<Rightarrow> Raise e os'
      | Ok u os' \<Rightarrow> rmtree_run fuel ts os')"
| "rmtree_run (Suc fuel) (Rmdir p # ts) os =
     (case os_rmdir os p of
        Raise e os' \<Rightarrow> Raise e os'
      | Ok u os' \<Rightarrow> rmtree_run fuel ts os')"

definition shutil_rmtree :: "os \<Rightarrow> string \<Rightarrow> (unit, os) res" where
  "shutil_rmtree os path =
     (case map_of (nodes os) path of
        None \<Rightarrow> Raise (FileNotFoundError path) os
      | Some (File b) \<Rightarrow> Raise (NotADirectoryError path) os
      | Some Dir \<Rightarrow> rmtree_run (2 * length (nodes os) + 2) [Walk path] os)"

subsection \<open>The builtin \<^verbatim>\<open>open\<close> and the stream it returns\<close>

record stream =
  s_path :: string
  s_mode :: string
  s_pos :: nat
  s_closed :: bool

text \<open>
  The checks of the mode string are those of \<^verbatim>\<open>io.open\<close>, in its order: the characters
  allowed, no character twice, not text and binary at once, exactly one of
  \<^verbatim>\<open>x r w a\<close>, and no \<^verbatim>\<open>encoding\<close> argument together with a binary mode. Only then the
  file system is touched.
\<close>

definition mode_error :: "string \<Rightarrow> string option \<Rightarrow> exn option" where
  "mode_error mode encoding =
     (let modes = set mode;
          kinds = filter (\<lambda>c. c \<in> modes) ''xrwa''
      in if \<not> modes \<subseteq> set ''axrwb+t'' \<or> \<not> distinct mode then
           Some (ValueError ''invalid mode'')
         else if CHR ''t'' \<in> modes \<and> CHR ''b'' \<in> modes then
           Some (ValueError ''text and binary mode at once'')
         else if length kinds \<noteq> 1 then
           Some (ValueError ''exactly one of create/read/write/append mode'')
         else if CHR ''b'' \<in> modes \<and> encoding \<noteq> None then
           Some (ValueError ''binary mode does not take an encoding argument'')
         else None)"

definition put_file :: "string \<Rightarrow> string \<Rightarrow> os \<Rightarrow> os" where
  "put_file path bytes os = os\<lparr>nodes := AList.update path (File bytes) (nodes os)\<rparr>"

definition builtin_open :: "os \<Rightarrow> string \<Rightarrow> string \<Rightarrow> string option \<Rightarrow> exn + (stream \<times> os)" where
  "builtin_open os file mode encoding =
     (case mode_error mode encoding of
        Some e \<Rightarrow> Inl e
      | None \<Rightarrow>
          (let strm = \<lparr>s_path = file, s_mode = mode, s_pos = 0, s_closed = False\<rparr> in
           case map_of (nodes os) file of
             Some Dir \<Rightarrow> Inl (IsADirectoryError file)
           | None \<Rightarrow>
               if CHR ''r'' \<in> set mode then Inl (FileNotFoundError file)
               else Inr (strm, put_file file [] os)
           | Some (File b) \<Rightarrow>
               if CHR ''x'' \<in> set mode then Inl (FileExistsError file)
               else if CHR ''w'' \<in> set mode then Inr (strm, put_file file [] os)
               else if CHR ''a'' \<in> set mode then Inr (strm\<lparr>s_pos := length b\<rparr>, os)
               else Inr (strm, os)))"

definition content :: "os \<Rightarrow> string \<Rightarrow> string" where
  "content os path = (case map_of (nodes os) path of Some (File b) \<Rightarrow> b | _ \<Rightarrow> [])"

definition is_binary :: "stream \<Rightarrow> bool" where
  "is_binary strm = (CHR ''b'' \<in> set (s_mode strm))"

definition readable :: "stream \<Rightarrow> bool" where
  "readable strm = (CHR ''r'' \<in> set (s_mode strm) \<or> CHR ''+'' \<in> set (s_mode strm))"

definition writable :: "stream \<Rightarrow> bool" where
  "writable strm = (s_mode strm \<noteq> [] \<and> (CHR ''r'' \<notin> set (s_mode strm) \<or> CHR ''+'' \<in> set (s_mode strm)))"

text \<open>
  \<^verbatim>\<open>seek\<close>: a text stream takes an absolute position, or offset 0 relative to the current
  position or to the end; a binary stream takes any offset that stays at or after 0.
\<close>

definition stream_seek :: "os \<Rightarrow> stream \<Rightarrow> int \<Rightarrow> int \<Rightarrow> exn + stream" where
  "stream_seek os strm offset whence =
     (if s_closed strm then Inl (ValueError ''I/O operation on closed file'')
      else if whence \<noteq> 0 \<and> whence \<noteq> 1 \<and> whence \<noteq> 2 then Inl (ValueError ''invalid whence'')
      else if is_binary strm then
        (let base = (if whence = 0 then 0 else if whence = 1 then int (s_pos strm)
                     else int (length (content os (s_path strm))))
         in if base + offset < 0 then Inl (OSError ''Invalid argument'')
            else Inr (strm\<lparr>s_pos := nat (base + offset)\<rparr>))
      else if whence = 0 then
        (if offset < 0 then Inl (ValueError ''negative seek position'')
         else Inr (strm\<lparr>s_pos := nat offset\<rparr>))
      else if offset \<noteq> 0 then Inl (UnsupportedOperation ''nonzero relative seek'')
      else if whence = 1 then Inr strm
      else Inr (strm\<lparr>s_pos := length (content os (s_path strm))\<rparr>))"

definition stream_tell :: "stream \<Rightarrow> exn + nat" where
  "stream_tell strm =
     (if s_closed strm then Inl (ValueError ''I/O operation on closed file'')
      else Inr (s_pos strm))"

text \<open>
  Python values that are read and written: \<^verbatim>\<open>bytes\<close>, \<^verbatim>\<open>str\<close> (a list of code points),
  or any other object, given by the text that \<^verbatim>\<open>str()\<close> makes of it. The codecs are a
  parameter: for the name of an encoding, the decoding of bytes and the encoding of text.
\<close>

type_synonym pystr = "nat list"

datatype pyval = Bytes string | Str pystr | Obj pystr

record codecs =
  decode :: "string \<Rightarrow> string \<Rightarrow> exn + pystr"
  encode :: "string \<Rightarrow> pystr \<Rightarrow> exn + string"

text \<open>
  \<^verbatim>\<open>read(n)\<close>: everything from the position on when \<open>n\<close> is absent or negative, else
  at most \<open>n\<close> units. A binary stream counts bytes and returns \<^verbatim>\<open>bytes\<close>. A text stream
  (opened here with \<^verbatim>\<open>encoding='utf-8'\<close>) decodes what lies ahead, counts characters and
  returns \<^verbatim>\<open>str\<close>; its position advances by the bytes of the characters returned.
\<close>

definition stream_read :: "codecs \<Rightarrow> os \<Rightarrow> stream \<Rightarrow> int option \<Rightarrow> exn + (pyval \<times> stream)" where
  "stream_read cs os strm n =
     (if s_closed strm then Inl (ValueError ''I/O operation on closed file'')
      else if \<not> readable strm then Inl (UnsupportedOperation ''not readable'')
      else
        (let rest = drop (s_pos strm) (content os (s_path strm)) in
         if is_binary strm then
           (let got = (case n of None \<Rightarrow> rest | Some k \<Rightarrow> if k < 0 then rest else take (nat k) rest)
            in Inr (Bytes got, strm\<lparr>s_pos := s_pos strm + length got\<rparr>))
         else
           (case decode cs ''utf-8'' rest of
              Inl e \<Rightarrow> Inl e
            | Inr t \<Rightarrow>
                (let got = (case n of None \<Rightarrow> t | Some k \<Rightarrow> if k < 0 then t else take (nat k) t)
                 in case encode cs ''utf-8'' got of
                      Inl e \<Rightarrow> Inl e
                    | Inr b \<Rightarrow> Inr (Str got, strm\<lparr>s_pos := s_pos strm + length b\<rparr>)))))"

text \<open>\<^verbatim>\<open>write(b)\<close> with \<open>b\<close> of type \<^verbatim>\<open>bytes\<close>: a text stream refuses it.\<close>

definition stream_write :: "os \<Rightarrow> stream \<Rightarrow> string \<Rightarrow> exn + (nat \<times> stream \<times> os)" where
  "stream_write os strm b =
     (if s_closed strm then Inl (ValueError ''I/O operation on closed file'')
      else if \<not> is_binary strm then Inl (TypeError ''write() argument must be str, not bytes'')
      else if \<not> writable strm then Inl (UnsupportedOperation ''not writable'')
      else
        (let old = content os (s_path strm);
             start = (if CHR ''a'' \<in> set (s_mode strm) then length old else s_pos strm);
             padded = old @ replicate (start - length old) (CHR 0x00);
             bytes = take start padded @ b @ drop (start + length b) padded
         in Inr (length b, strm\<lparr>s_pos := start + length b\<rparr>,
                 put_file (s_path strm) bytes os)))"

definition stream_flush :: "stream \<Rightarrow> exn option" where
  "stream_flush strm =
     (if s_closed strm then Some (ValueError ''I/O operation on closed file'') else None)"

text \<open>
  \<^verbatim>\<open>close()\<close>: nothing on a closed stream; otherwise the stream is closed, and the error
  the operating system reports for it, if any, is raised.
\<close>

definition stream_close :: "os \<Rightarrow> stream \<Rightarrow> exn option \<times> stream" where
  "stream_close os strm =
     (if s_closed strm then (None, strm)
      else (close_fault os (s_path strm), strm\<lparr>s_closed := True\<rparr>))"

section \<open>The file entity: \<^verbatim>\<open>OsFile\<close>\<close>

text \<open>
  Modelled from the spec: the identifier (\<^verbatim>\<open>URL\<close>, \<^verbatim>\<open>asUrl\<close>) comes from the module
  \<^verbatim>\<open>paths\<close>, which is not among the sources. A URL carries its text and the file path
  it stands for; the form with the prefix \<^verbatim>\<open>file://\<close> and the bare path are both
  accepted, and \<^verbatim>\<open>child\<close> appends a name.
\<close>

record URL =
  location :: string
  filePath :: "string option"

definition asUrl :: "string \<Rightarrow> URL" where
  "asUrl s = \<lparr>location = s,
              filePath = Some (if take 7 s = ''file://'' then drop 7 s else s)\<rparr>"

definition child :: "URL \<Rightarrow> string \<Rightarrow> URL" where
  "child u c =
     \<lparr>location = os_path_join (location u) c,
      filePath = Some (os_path_join (case filePath u of None \<Rightarrow> [] | Some p \<Rightarrow> p) c)\<rparr>"

text \<open>
  The attribute \<^verbatim>\<open>_f\<close> is \<^verbatim>\<open>None\<close>, a stream, or the entity itself: line 229 of
  \<^verbatim>\<open>read\<close> stores what \<^verbatim>\<open>self.open('rb')\<close> returns, and \<^verbatim>\<open>open\<close> returns \<^verbatim>\<open>self\<close>.
  A method called on \<^verbatim>\<open>_f\<close> when it is the entity itself enters the same method again,
  without end, until the interpreter raises \<^verbatim>\<open>RecursionError\<close>.
\<close>

datatype handle = Stream stream | Self

record OsFile =
  f_url :: "URL option"              \<comment> \<open>\<^verbatim>\<open>self.url\<close>\<close>
  f_filesystem :: nat                \<comment> \<open>\<^verbatim>\<open>self.filesystem\<close>, a reference\<close>
  isOpen :: bool
  priv_fileAccessMode :: string      \<comment> \<open>\<^verbatim>\<open>self._fileAccessMode\<close>\<close>
  fileAccessMode :: string           \<comment> \<open>\<^verbatim>\<open>self.fileAccessMode\<close>, assigned at line 253\<close>
  priv_f :: "handle option"          \<comment> \<open>\<^verbatim>\<open>self._f\<close>\<close>

type_synonym fstate = "OsFile \<times> os"

text \<open>Line 210, \<^verbatim>\<open>self._f.seek(offset,whence)\<close>.\<close>

definition handle_seek :: "int \<Rightarrow> int \<Rightarrow> fstate \<Rightarrow> (unit, fstate) res" where
  "handle_seek offset whence x =
     (case x of (s, os) \<Rightarrow>
        (case priv_f s of
           None \<Rightarrow> Raise (AttributeError ''seek'') x
         | Some Self \<Rightarrow> Raise RecursionError x
         | Some (Stream strm) \<Rightarrow>
             (case stream_seek os strm offset whence of
                Inl e \<Rightarrow> Raise e x
              | Inr strm' \<Rightarrow> Ok () (s\<lparr>priv_f := Some (Stream strm')\<rparr>, os))))"

text \<open>
  Lines 175 to 193. With a stream present, \<^verbatim>\<open>self.seek(0)\<close> of line 192 skips the block
  of lines 205 to 209 and is line 210 alone.
\<close>

definition OsFile_open :: "string option \<Rightarrow> fstate \<Rightarrow> (unit, fstate) res" where
  "OsFile_open mode x =
     (case x of (s, os) \<Rightarrow>
        if priv_f s = None then
          (case f_url s of
             None \<Rightarrow> Raise NullFileLocation x
           | Some u \<Rightarrow>
               (case filePath u of
                  None \<Rightarrow> Raise NullFileLocation x
                | Some path \<Rightarrow>
                    (let s1 = s\<lparr>isOpen := True\<rparr>;
                         m = (case mode of None \<Rightarrow> priv_fileAccessMode s1 | Some m' \<Rightarrow> m');
                         s2 = (case mode of None \<Rightarrow> s1 | Some m' \<Rightarrow> s1\<lparr>priv_fileAccessMode := m'\<rparr>)
                     in case builtin_open os path m (Some ''utf-8'') of
                          Inl e \<Rightarrow> Raise e (s2, os)
                        | Inr (strm, os') \<Rightarrow> Ok () (s2\<lparr>priv_f := Some (Stream strm)\<rparr>, os'))))
        else handle_seek 0 0 x)"

text \<open>Lines 201 to 210.\<close>

definition OsFile_seek :: "int \<Rightarrow> int \<Rightarrow> fstate \<Rightarrow> (unit, fstate) res" where
  "OsFile_seek offset whence x =
     (if priv_f (fst x) = None then
        (if offset = 0 \<and> whence = 0 then Ok () x
         else (case OsFile_open None x of
                 Raise e y \<Rightarrow> Raise e y
               | Ok u y \<Rightarrow> handle_seek offset whence y))
      else handle_seek offset whence x)"

text \<open>Lines 212 to 219.\<close>

definition OsFile_tell :: "fstate \<Rightarrow> (nat, fstate) res" where
  "OsFile_tell x =
     (case priv_f (fst x) of
        None \<Rightarrow> Ok 0 x
      | Some Self \<Rightarrow> Raise RecursionError x
      | Some (Stream strm) \<Rightarrow>
          (case stream_tell strm of Inl e \<Rightarrow> Raise e x | Inr n \<Rightarrow> Ok n x))"

text \<open>
  Lines 221 to 233. Line 229 assigns to \<^verbatim>\<open>_f\<close> the value of \<^verbatim>\<open>self.open('rb')\<close>, which is
  the entity; line 230 reads from \<^verbatim>\<open>_f\<close>; lines 231 and 232 decode when an encoding is
  given (a \<^verbatim>\<open>str\<close> has no \<^verbatim>\<open>decode\<close>).
\<close>

definition OsFile_read :: "codecs \<Rightarrow> int option \<Rightarrow> string option \<Rightarrow> fstate \<Rightarrow> (pyval, fstate) res" where
  "OsFile_read cs numBytes encoding x =
     (case (if priv_f (fst x) = None then
              (case OsFile_open (Some ''rb'') x of
                 Raise e y \<Rightarrow> Raise e y
               | Ok u (s', os') \<Rightarrow> Ok () (s'\<lparr>priv_f := Some Self\<rparr>, os'))
            else Ok () x) of
        Raise e y \<Rightarrow> Raise e y
      | Ok u (s, os) \<Rightarrow>
          (case priv_f s of
             None \<Rightarrow> Raise (AttributeError ''read'') (s, os)
           | Some Self \<Rightarrow> Raise RecursionError (s, os)
           | Some (Stream strm) \<Rightarrow>
               (case stream_read cs os strm numBytes of
                  Inl e \<Rightarrow> Raise e (s, os)
                | Inr (data, strm') \<Rightarrow>
                    (let y = (s\<lparr>priv_f := Some (Stream strm')\<rparr>, os) in
                     case encoding of
                       None \<Rightarrow> Ok data y
                     | Some enc \<Rightarrow>
                         (case data of
                            Bytes b \<Rightarrow>
                              (case decode cs enc b of
                                 Inl e \<Rightarrow> Raise e y
                               | Inr t \<Rightarrow> Ok (Str t) y)
                          | _ \<Rightarrow> Raise (AttributeError ''decode'') y)))))"

text \<open>Lines 241 to 244: \<^verbatim>\<open>bytes\<close> pass, anything else is made text and encoded.\<close>

definition to_bytes :: "codecs \<Rightarrow> pyval \<Rightarrow> string \<Rightarrow> exn + string" where
  "to_bytes cs data encoding =
     (case data of
        Bytes b \<Rightarrow> Inr b
      | Str t \<Rightarrow> encode cs encoding t
      | Obj t \<Rightarrow> encode cs encoding t)"

text \<open>Lines 235 to 245.\<close>

definition OsFile_write :: "codecs \<Rightarrow> pyval \<Rightarrow> string \<Rightarrow> fstate \<Rightarrow> (nat, fstate) res" where
  "OsFile_write cs data encoding x =
     (case (if priv_f (fst x) = None then OsFile_open (Some ''wb'') x else Ok () x) of
        Raise e y \<Rightarrow> Raise e y
      | Ok u (s, os) \<Rightarrow>
          (case to_bytes cs data encoding of
             Inl e \<Rightarrow> Raise e (s, os)
           | Inr b \<Rightarrow>
               (case priv_f s of
                  None \<Rightarrow> Raise (AttributeError ''write'') (s, os)
                | Some Self \<Rightarrow> Raise RecursionError (s, os)
                | Some (Stream strm) \<Rightarrow>
                    (case stream_write os strm b of
                       Inl e \<Rightarrow> Raise e (s, os)
                     | Inr (n, strm', os') \<Rightarrow> Ok n (s\<lparr>priv_f := Some (Stream strm')\<rparr>, os')))))"

text \<open>
  Lines 247 to 255. The two attributes are assigned before the stream is closed, and
  \<^verbatim>\<open>_f\<close> is cleared after it, so only when the close did not raise.
\<close>

definition OsFile_close :: "fstate \<Rightarrow> (unit, fstate) res" where
  "OsFile_close x =
     (case x of (s, os) \<Rightarrow>
        (case priv_f s of
           None \<Rightarrow> Ok () x
         | Some g \<Rightarrow>
             (let s1 = s\<lparr>isOpen := False, fileAccessMode := []\<rparr> in
              case g of
                Self \<Rightarrow> Raise RecursionError (s1, os)
              | Stream strm \<Rightarrow>
                  (case stream_close os strm of
                     (Some e, strm') \<Rightarrow> Raise e (s1\<lparr>priv_f := Some (Stream strm')\<rparr>, os)
                   | (None, strm') \<Rightarrow> Ok () (s1\<lparr>priv_f := None\<rparr>, os)))))"

text \<open>Lines 257 to 263.\<close>

definition OsFile_flush :: "fstate \<Rightarrow> (unit, fstate) res" where
  "OsFile_flush x =
     (case priv_f (fst x) of
        None \<Rightarrow> Raise FileNotOpen x
      | Some Self \<Rightarrow> Raise RecursionError x
      | Some (Stream strm) \<Rightarrow>
          (case stream_flush strm of Some e \<Rightarrow> Raise e x | None \<Rightarrow> Ok () x))"

text \<open>Lines 195 to 199, \<^verbatim>\<open>__del__\<close>: the call of \<^verbatim>\<open>close\<close>, with no handler around it.\<close>

definition OsFile_del :: "fstate \<Rightarrow> (unit, fstate) res" where
  "OsFile_del x = OsFile_close x"

text \<open>
  The destruction of an entity is the interpreter's act, not a call in the program:
  when the object is reclaimed the interpreter calls \<^verbatim>\<open>__del__\<close>, and an exception that
  leaves \<^verbatim>\<open>__del__\<close> is written to \<^verbatim>\<open>sys.stderr\<close> and dropped, as the language reference
  states for \<^verbatim>\<open>object.__del__\<close>. \<open>destroy\<close> is this act: it returns the state after the
  finaliser and what has been written to \<^verbatim>\<open>sys.stderr\<close>.
\<close>

definition destroy :: "fstate \<Rightarrow> exn list \<Rightarrow> fstate \<times> exn list" where
  "destroy x stderr =
     (case OsFile_del x of
        Ok u y \<Rightarrow> (y, stderr)
      | Raise e y \<Rightarrow> (y, stderr @ [e]))"

section \<open>Objects, directories and the driver\<close>

text \<open>
  Directory entities are shared and changed in place (the cache of one directory is
  cleared through a reference held by another object), so they live in a store of
  objects, by reference; a reference is never used twice. A generator object is what a
  call of \<^verbatim>\<open>_dir\<close> returns: \<^verbatim>\<open>_dir\<close> contains \<^verbatim>\<open>yield\<close>, so calling it runs none of
  its body. \<open>Fresh self d\<close> is the generator before its first item is asked for, with
  the arguments of the call; \<open>Finished\<close> is the generator after its body has ended.
\<close>

datatype generator = Fresh nat nat | Finished

record OsDirectory =
  d_url :: URL                       \<comment> \<open>\<^verbatim>\<open>self.url\<close>\<close>
  d_filesystem :: nat                \<comment> \<open>\<^verbatim>\<open>self.filesystem\<close>, a reference to the driver\<close>
  priv_children :: "nat option"      \<comment> \<open>\<^verbatim>\<open>self._children\<close>, a reference to a generator\<close>
  caseSensitive :: "bool option"     \<comment> \<open>set for the driver itself, an \<^verbatim>\<open>OsFs\<close>\<close>

record heap =
  dirs :: "nat \<rightharpoonup> OsDirectory"
  files :: "nat \<rightharpoonup> OsFile"
  gens :: "nat \<rightharpoonup> generator"
  next_id :: nat
  default_fileAccessMode :: string
    \<comment> \<open>what \<^verbatim>\<open>ezFs.EzFsFile.__init__\<close> (not among the sources) gives \<^verbatim>\<open>_fileAccessMode\<close>\<close>

datatype ref = DirRef nat | FileRef nat

type_synonym world = "heap \<times> os"

text \<open>Lines 271 to 274, \<^verbatim>\<open>OsDirectory(url,filesystem)\<close>.\<close>

definition new_OsDirectory :: "URL \<Rightarrow> nat \<Rightarrow> heap \<Rightarrow> nat \<times> heap" where
  "new_OsDirectory url fs h =
     (next_id h,
      h\<lparr>dirs := (dirs h)(next_id h \<mapsto>
             \<lparr>d_url = url, d_filesystem = fs, priv_children = None, caseSensitive = None\<rparr>),
        next_id := Suc (next_id h)\<rparr>)"

text \<open>Lines 170 to 173, \<^verbatim>\<open>OsFile(url,filesystem)\<close>.\<close>

definition new_OsFile :: "URL \<Rightarrow> nat \<Rightarrow> heap \<Rightarrow> nat \<times> heap" where
  "new_OsFile url fs h =
     (next_id h,
      h\<lparr>files := (files h)(next_id h \<mapsto>
             \<lparr>f_url = Some url, f_filesystem = fs, isOpen = False,
              priv_fileAccessMode = default_fileAccessMode h, fileAccessMode = [],
              priv_f = None\<rparr>),
        next_id := Suc (next_id h)\<rparr>)"

text \<open>Lines 276 to 280.\<close>

definition markDirty :: "nat \<Rightarrow> heap \<Rightarrow> heap" where
  "markDirty d h =
     h\<lparr>dirs := (dirs h)(d := map_option (\<lambda>dir. dir\<lparr>priv_children := None\<rparr>) (dirs h d))\<rparr>"

text \<open>Lines 327 to 341; \<open>self\<close> is the reference of the driver.\<close>

definition resolved_path :: "URL \<Rightarrow> string" where
  "resolved_path url =
     (case filePath url of None \<Rightarrow> ''.'' | Some p \<Rightarrow> if p = [] then ''.'' else p)"

definition OsFs_getFsItem :: "nat \<Rightarrow> URL \<Rightarrow> world \<Rightarrow> (ref, world) res" where
  "OsFs_getFsItem self url x =
     (case x of (h, os) \<Rightarrow>
        if os_path_isdir os (resolved_path url) then
          (case new_OsDirectory url self h of (r, h') \<Rightarrow> Ok (DirRef r) (h', os))
        else if os_path_exists os (resolved_path url) then
          (case new_OsFile url self h of (r, h') \<Rightarrow> Ok (FileRef r) (h', os))
        else Raise (NoFileException (resolved_path url)) x)"

text \<open>
  Lines 394 to 405. Calling \<^verbatim>\<open>_dir\<close> makes the generator object and nothing else.
  \<open>asUrl\<close> of a directory entity is taken to be the entity's URL.
\<close>

definition OsFs_dir :: "nat \<Rightarrow> nat \<Rightarrow> heap \<Rightarrow> nat \<times> heap" where
  "OsFs_dir self d h =
     (next_id h, h\<lparr>gens := (gens h)(next_id h \<mapsto> Fresh self d), next_id := Suc (next_id h)\<rparr>)"

text \<open>Lines 402 to 405, the \<^verbatim>\<open>for\<close> loop of the body run to its end: the items it yields.\<close>

fun yield_all :: "nat \<Rightarrow> URL \<Rightarrow> string list \<Rightarrow> world \<Rightarrow> (ref list, world) res" where
  "yield_all self url [] x = Ok [] x"
| "yield_all self url (c # cs) x =
     (case OsFs_getFsItem self (child url c) x of
        Raise e y \<Rightarrow> Raise e y
      | Ok item y \<Rightarrow>
          (case yield_all self url cs y of
             Raise e z \<Rightarrow> Raise e z
           | Ok items z \<Rightarrow> Ok (item # items) z))"

definition finish :: "nat \<Rightarrow> world \<Rightarrow> world" where
  "finish g x = (case x of (h, os) \<Rightarrow> (h\<lparr>gens := (gens h)(g \<mapsto> Finished)\<rparr>, os))"

text \<open>
  Iterating over a generator until it is exhausted (a \<^verbatim>\<open>for\<close> loop over it, or
  \<^verbatim>\<open>list\<close> of it): a fresh generator runs the body of \<^verbatim>\<open>_dir\<close> from its first line; a
  finished one yields nothing. In both cases the generator is finished afterwards.
\<close>

definition iterate :: "nat \<Rightarrow> world \<Rightarrow> (ref list, world) res" where
  "iterate g x =
     (case x of (h, os) \<Rightarrow>
        (case gens h g of
           None \<Rightarrow> Raise (TypeError ''object is not iterable'') x
         | Some Finished \<Rightarrow> Ok [] x
         | Some (Fresh self d) \<Rightarrow>
             (case dirs h d of
                None \<Rightarrow> Raise (AttributeError ''url'') (finish g x)
              | Some dir \<Rightarrow>
                  (case os_listdir os (resolved_path (d_url dir)) of
                     Inl e \<Rightarrow> Raise e (finish g x)
                   | Inr names \<Rightarrow>
                       (case yield_all self (d_url dir) names x of
                          Raise e y \<Rightarrow> Raise e (finish g y)
                        | Ok items y \<Rightarrow> Ok items (finish g y))))))"

text \<open>Lines 282 to 289, the property \<^verbatim>\<open>children\<close>: its value is a reference to a generator.\<close>

definition OsDirectory_children :: "nat \<Rightarrow> heap \<Rightarrow> (nat, heap) res" where
  "OsDirectory_children d h =
     (case dirs h d of
        None \<Rightarrow> Raise (AttributeError ''_children'') h
      | Some dir \<Rightarrow>
          (case priv_children dir of
             None \<Rightarrow>
               (case OsFs_dir (d_filesystem dir) d h of
                  (g, h') \<Rightarrow> Ok g (h'\<lparr>dirs := (dirs h')(d \<mapsto> dir\<lparr>priv_children := Some g\<rparr>)\<rparr>))
           | Some g \<Rightarrow> Ok g h))"

text \<open>
  Lines 307 to 320, the constructor of the driver. The driver is a directory entity whose
  \<^verbatim>\<open>filesystem\<close> is itself.
\<close>

definition OsFs_init :: "host \<Rightarrow> string option \<Rightarrow> bool \<Rightarrow> heap \<Rightarrow> nat \<times> heap" where
  "OsFs_init hst url defaultLocationCwd h =
     (let cs = (os_sep hst \<noteq> [CHR 0x5C]);
          u = (if url = None \<or> url = Some [] then
                 (if defaultLocationCwd then asUrl (os_getcwd hst)
                  else if os_name hst = ''nt'' then asUrl [CHR ''c'', CHR '':'', CHR 0x5C]
                  else asUrl ''/'')
               else asUrl (the url))
      in (next_id h,
          h\<lparr>dirs := (dirs h)(next_id h \<mapsto>
                 \<lparr>d_url = u, d_filesystem = next_id h, priv_children = None,
                  caseSensitive = Some cs\<rparr>),
            next_id := Suc (next_id h)\<rparr>))"

text \<open>Lines 322 to 325, the property \<^verbatim>\<open>root\<close>.\<close>

definition OsFs_root :: "nat \<Rightarrow> heap \<Rightarrow> nat \<times> heap" where
  "OsFs_root self h = new_OsDirectory (asUrl ''file://'') self h"

text \<open>
  Lines 407 to 416. \<open>fsId\<close> and \<open>parent\<close> are what the properties \<^verbatim>\<open>fsItem.fsId\<close> and
  \<^verbatim>\<open>fsItem.parent\<close> of \<^verbatim>\<open>ezFs\<close> (not among the sources) give: a path, and the reference
  of a directory entity.
\<close>

definition OsFs_delete :: "ref \<Rightarrow> string \<Rightarrow> nat \<Rightarrow> world \<Rightarrow> (unit, world) res" where
  "OsFs_delete fsItem fsId parent x =
     (case x of (h, os) \<Rightarrow>
        (case (case fsItem of
                 DirRef r \<Rightarrow> shutil_rmtree os fsId
               | FileRef r \<Rightarrow> os_remove os fsId) of
           Raise e os' \<Rightarrow> Raise e (h, os')
         | Ok u os' \<Rightarrow> Ok () (markDirty parent h, os')))"

section \<open>Concrete inputs\<close>

text \<open>
  A host that is neither Windows nor POSIX, so that the polling backend is chosen; the
  watched file changes its timestamp after the first look, and a name appears in the
  watched directory; one signal arrives during the first sleep.
\<close>

definition polling_host :: host where
  "polling_host =
     \<lparr>os_name = ''java'', os_sep = ''/'', os_getcwd = ''/home'', path_join = os_path_join,
      CreateFile_error = None,
      ReadDirectoryChangesW = (\<lambda>i. Inr [(3, ''a.txt'')]), has_SIGIO = True,
      os_open_error = None, fcntl_error = None,
      sigio_during_sleep = (\<lambda>i. if i = 0 then 1 else 0),
      os_stat_mtime = (\<lambda>i. if i = 0 then Inr 100 else Inr 200),
      os_listdir_names = (\<lambda>i. if i = 0 then Inr [''a''] else Inr [''a'', ''b''])\<rparr>"

definition posix_host :: host where
  "posix_host = polling_host\<lparr>os_name := ''posix''\<rparr>"

text \<open>
  A Windows host. Its \<^verbatim>\<open>os.path.join\<close> is given for the arguments it meets below, a
  directory path with a drive and a relative file name: \<^verbatim>\<open>ntpath.join\<close> puts a backslash
  between the two.
\<close>

definition nt_host :: host where
  "nt_host =
     polling_host\<lparr>os_name := ''nt'', os_sep := [CHR 0x5C],
                  path_join := (\<lambda>a b. a @ [CHR 0x5C] @ b)\<rparr>"

text \<open>A callback that raises at every call, and one that never does.\<close>

definition raising :: watchFn where
  "raising lg path operation = Some (UserError ''boom'')"

definition quiet :: watchFn where
  "quiet lg path operation = None"

text \<open>Codecs that take a byte for a code point and back (enough for ASCII text).\<close>

definition plain :: codecs where
  "plain = \<lparr>decode = (\<lambda>enc b. Inr (map of_char b)), encode = (\<lambda>enc t. Inr (map char_of t))\<rparr>"

text \<open>
  A store with a directory \<^verbatim>\<open>/base\<close> that holds two files and a directory whose name
  looks like a file's. Closing a stream on \<^verbatim>\<open>b.txt\<close> and removing \<^verbatim>\<open>b.txt\<close> fail.
\<close>

definition base_os :: os where
  "base_os =
     \<lparr>nodes = [(''/base'', Dir), (''/base/a.txt'', File ''hello''), (''/base/b.txt'', File []),
               (''/base/sub.txt'', Dir)],
      close_fault = (\<lambda>p. if p = ''/base/b.txt'' then Some (OSError ''Input/output error'') else None),
      remove_fault = (\<lambda>p. if p = ''/base/b.txt'' then Some (OSError ''Permission denied'') else None)\<rparr>"

definition a_file :: OsFile where
  "a_file =
     \<lparr>f_url = Some (asUrl ''/base/a.txt''), f_filesystem = 0, isOpen = False,
      priv_fileAccessMode = ''r'', fileAccessMode = [], priv_f = None\<rparr>"

definition b_stream :: stream where
  "b_stream = \<lparr>s_path = ''/base/b.txt'', s_mode = ''r'', s_pos = 0, s_closed = False\<rparr>"

definition b_file_open :: OsFile where
  "b_file_open =
     \<lparr>f_url = Some (asUrl ''/base/b.txt''), f_filesystem = 0, isOpen = True,
      priv_fileAccessMode = ''r'', fileAccessMode = ''r'', priv_f = Some (Stream b_stream)\<rparr>"

definition empty_heap :: heap where
  "empty_heap =
     \<lparr>dirs = Map.empty, files = Map.empty, gens = Map.empty, next_id = 0,
      default_fileAccessMode = ''r''\<rparr>"

text \<open>A heap with one directory entity, for \<^verbatim>\<open>/base\<close>, whose listing is cached.\<close>

definition cached_heap :: heap where
  "cached_heap =
     \<lparr>dirs = [0 \<mapsto> \<lparr>d_url = asUrl ''/base'', d_filesystem = 0, priv_children = Some 1,
                      caseSensitive = Some True\<rparr>],
      files = Map.empty, gens = [1 \<mapsto> Finished], next_id = 2,
      default_fileAccessMode = ''r''\<rparr>"

section \<open>Properties of the watch subsystem\<close>

lemma nt_loop_not_Returned: "nt_loop fuel h watchFn source i st \<noteq> Returned st'"
  by (induction fuel arbitrary: i st) (auto split: sum.splits)

lemma posix_loop_not_Returned:
  "posix_loop fuel h watchFn source pollingInterval installed i st \<noteq> Returned st'"
  by (induction fuel arbitrary: i st) (auto split: sum.splits option.splits prod.splits)

lemma poll_file_loop_not_Returned:
  "poll_file_loop fuel h watchFn source pollingInterval tb lastchange st \<noteq> Returned st'"
  by (induction fuel arbitrary: lastchange st) (auto split: option.splits prod.splits)

lemma poll_dir_loop_not_Returned:
  "poll_dir_loop fuel h watchFn source pollingInterval tb before0 st \<noteq> Returned st'"
  by (induction fuel arbitrary: before0 st) (auto split: option.splits prod.splits)

text \<open>
  C1. The claim: on every backend \<^verbatim>\<open>addWatch\<close> returns immediately to its caller. The code:
  whatever the host, the callback, the interval and the number of iterations allowed,
  \<^verbatim>\<open>addWatch\<close> has not returned; it is still in its loop or it has raised.
\<close>

theorem addWatch_never_returns:
  "addWatch fuel h isDir source watchFn pollingInterval \<noteq> Returned st'"
  unfolding addWatch_def Let_def
  by (simp add: nt_loop_not_Returned posix_loop_not_Returned poll_file_loop_not_Returned
        poll_dir_loop_not_Returned split: option.split prod.split sum.split exn.split)

text \<open>
  The event-queue loop keeps its promise. Whatever the callback does, the loop ends only
  when \<^verbatim>\<open>ReadDirectoryChangesW\<close> itself raises; and with a callback that raises at every
  call, two rounds deliver two notifications, print the two exceptions, and the loop is
  still running.
\<close>

lemma nt_loop_survives_callback:
  "(\<And>i. \<exists>results. ReadDirectoryChangesW h i = Inr results) \<Longrightarrow>
   \<exists>st'. nt_loop fuel h watchFn source i st = Running st'"
proof (induction fuel arbitrary: i st)
  case 0
  then show ?case by simp
next
  case (Suc fuel)
  from Suc.prems obtain results where r: "ReadDirectoryChangesW h i = Inr results" by blast
  from Suc.IH [OF Suc.prems] show ?case by (simp add: r)
qed

lemma nt_callback_guarded:
  "addWatch 2 nt_host True (''C:'' @ [CHR 0x5C] @ ''base'') raising 1 =
     Running
       \<lparr>calls = [(''C:'' @ [CHR 0x5C] @ ''base'' @ [CHR 0x5C] @ ''a.txt'', ''UPDATE''),
                 (''C:'' @ [CHR 0x5C] @ ''base'' @ [CHR 0x5C] @ ''a.txt'', ''UPDATE'')],
        printed = [Exc (UserError ''boom''), Exc (UserError ''boom'')], slept = [],
        n_stat = 0, n_listdir = 0\<rparr>"
  by (simp add: addWatch_def polling_host_def nt_host_def raising_def
      init_watch_def call_def numeral_2_eq_2 ACTIONS_def print_exn_def)

text \<open>
  C6. The claim: on every backend an exception raised by the callback inside the watch
  loop is caught, logged and suppressed, and the loop goes on. The code, with a callback
  that raises: the polling loop of a directory makes its first \<^verbatim>\<open>CREATE\<close> call and the
  exception leaves \<^verbatim>\<open>addWatch\<close>; on the signal-driven backend the handler's \<^verbatim>\<open>UPDATE\<close>
  call does the same. Nothing is printed, and the loop has ended after one sleep.
\<close>

theorem callback_exception_ends_watch:
  "addWatch 3 polling_host True ''/base'' raising 1 =
     Raised (UserError ''boom'')
       \<lparr>calls = [(''/base'', ''CREATE'')], printed = [], slept = [1000], n_stat = 0,
        n_listdir = 2\<rparr>
   \<and> addWatch 3 posix_host True ''/base'' raising 1 =
     Raised (UserError ''boom'')
       \<lparr>calls = [(''/base'', ''UPDATE'')], printed = [], slept = [1000], n_stat = 0,
        n_listdir = 0\<rparr>"
  by (simp add: addWatch_def polling_host_def posix_host_def raising_def os_listdir_poll_def
      init_watch_def dict_keys_def time_sleep_def poll_dir_body_def call_def numeral_3_eq_3)

text \<open>
  On any host where the polling backend is chosen, a watch on a file whose first
  \<^verbatim>\<open>os.stat\<close> succeeds ends at line 138, before the first sleep and the first sample.
\<close>

lemma polling_file_watch_always_raises:
  "os_name h \<noteq> ''nt'' \<Longrightarrow> os_name h \<noteq> ''posix'' \<Longrightarrow> os_stat_mtime h 0 = Inr m \<Longrightarrow>
   addWatch (Suc n) h False source watchFn pollingInterval =
     Raised (UnboundLocalError ''time'') (init_watch\<lparr>n_stat := 1\<rparr>)"
  by (simp add: addWatch_def os_stat_def init_watch_def time_sleep_def)

text \<open>
  C7. The claim: the polling watch of a file samples the timestamp once per
  \<^verbatim>\<open>pollingIntervalSeconds\<close> seconds, calls the callback once with \<^verbatim>\<open>UPDATE\<close> per change
  and with \<^verbatim>\<open>DELETE\<close> when the file is gone. The code, on a file whose timestamp changes
  from 100 to 200, with interval 1 and any positive number of iterations: it raises
  \<^verbatim>\<open>UnboundLocalError\<close> for the name \<^verbatim>\<open>time\<close>, having looked at the file once, slept
  never and called the callback never.
\<close>

theorem polling_file_watch_raises:
  "addWatch (Suc n) polling_host False ''/base/a.txt'' quiet 1 =
     Raised (UnboundLocalError ''time'')
       \<lparr>calls = [], printed = [], slept = [], n_stat = 1, n_listdir = 0\<rparr>"
  by (simp add: addWatch_def polling_host_def os_stat_def init_watch_def time_sleep_def)

section \<open>Properties of the file entity\<close>

lemma mode_error_wb:
  "mode_error ''wb'' (Some enc) =
     Some (ValueError ''binary mode does not take an encoding argument'')"
  by (simp add: mode_error_def Let_def)

lemma mode_error_rb:
  "mode_error ''rb'' (Some enc) =
     Some (ValueError ''binary mode does not take an encoding argument'')"
  by (simp add: mode_error_def Let_def)

text \<open>
  Whatever the entity, the store and the data: on an entity with no stream, \<^verbatim>\<open>write\<close>
  and \<^verbatim>\<open>read\<close> raise. The implicit open passes a binary mode together with
  \<^verbatim>\<open>encoding='utf-8'\<close> (line 190), which the builtin \<^verbatim>\<open>open\<close> refuses.
\<close>

lemma write_unopened_always_raises:
  "priv_f s = None \<Longrightarrow> \<exists>e y. OsFile_write cs data encoding (s, os) = Raise e y"
  by (auto simp add: OsFile_write_def OsFile_open_def builtin_open_def mode_error_wb Let_def
      split: option.splits)

lemma read_unopened_always_raises:
  "priv_f s = None \<Longrightarrow> \<exists>e y. OsFile_read cs numBytes encoding (s, os) = Raise e y"
  by (auto simp add: OsFile_read_def OsFile_open_def builtin_open_def mode_error_rb Let_def
      split: option.splits)

text \<open>
  C2. The claim: writing bytes to a file entity, closing it and reading it back yields the
  same bytes, \<^verbatim>\<open>write\<close> and \<^verbatim>\<open>read\<close> opening the stream implicitly in binary mode. The
  code, on the never-opened entity for the existing file \<^verbatim>\<open>/base/a.txt\<close>: \<^verbatim>\<open>write\<close> of
  the bytes \<^verbatim>\<open>abc\<close> raises \<^verbatim>\<open>ValueError\<close> and leaves the store as it was, and so does
  \<^verbatim>\<open>read\<close>; the entity is left marked open, with no stream.
\<close>

theorem write_unopened_raises:
  "OsFile_write plain (Bytes ''abc'') ''utf-8'' (a_file, base_os) =
     Raise (ValueError ''binary mode does not take an encoding argument'')
       (a_file\<lparr>isOpen := True, priv_fileAccessMode := ''wb''\<rparr>, base_os)
   \<and> OsFile_read plain None None (a_file, base_os) =
     Raise (ValueError ''binary mode does not take an encoding argument'')
       (a_file\<lparr>isOpen := True, priv_fileAccessMode := ''rb''\<rparr>, base_os)"
  by (simp add: OsFile_write_def OsFile_read_def OsFile_open_def a_file_def asUrl_def
      builtin_open_def mode_error_def Let_def)

text \<open>
  C5. On an entity with no stream, \<^verbatim>\<open>seek(0, 0)\<close> returns with the entity and the store
  as they were (no stream, \<^verbatim>\<open>isOpen\<close> untouched), and \<^verbatim>\<open>tell()\<close> answers 0. Every other
  \<^verbatim>\<open>seek\<close> is the implicit \<^verbatim>\<open>open()\<close>, in the remembered mode, followed by the seek on
  the stream; an error of the open is the error of the call. Where the builtin open
  succeeds, the entity is marked open and holds the stream, on which the seek has been
  done.
\<close>

theorem seek_unopened:
  "priv_f s = None \<Longrightarrow>
     OsFile_seek 0 0 (s, os) = Ok () (s, os)
   \<and> OsFile_tell (s, os) = Ok 0 (s, os)
   \<and> ((offset, whence) \<noteq> (0, 0) \<longrightarrow>
        OsFile_seek offset whence (s, os) =
          (case OsFile_open None (s, os) of
             Raise e y \<Rightarrow> Raise e y
           | Ok u y \<Rightarrow> handle_seek offset whence y))
   \<and> ((offset, whence) \<noteq> (0, 0) \<longrightarrow> f_url s = Some u \<longrightarrow> filePath u = Some path \<longrightarrow>
        builtin_open os path (priv_fileAccessMode s) (Some ''utf-8'') = Inr (strm, os') \<longrightarrow>
        OsFile_seek offset whence (s, os) =
          (case stream_seek os' strm offset whence of
             Inl e \<Rightarrow> Raise e (s\<lparr>isOpen := True, priv_f := Some (Stream strm)\<rparr>, os')
           | Inr strm' \<Rightarrow> Ok () (s\<lparr>isOpen := True, priv_f := Some (Stream strm')\<rparr>, os')))"
  by (auto simp add: OsFile_seek_def OsFile_tell_def OsFile_open_def handle_seek_def Let_def
      split: sum.splits)

text \<open>
  The hypotheses hold for the entity of \<^verbatim>\<open>/base/a.txt\<close>, a file of 5 bytes remembered
  in mode \<^verbatim>\<open>r\<close>: seeking to 3, and to the end, opens the stream.
\<close>

theorem seek_unopened_witness:
  "OsFile_seek 0 0 (a_file, base_os) = Ok () (a_file, base_os)
   \<and> OsFile_tell (a_file, base_os) = Ok 0 (a_file, base_os)
   \<and> OsFile_seek 3 0 (a_file, base_os) =
       Ok () (a_file\<lparr>isOpen := True,
                 priv_f := Some (Stream \<lparr>s_path = ''/base/a.txt'', s_mode = ''r'', s_pos = 3,
                                          s_closed = False\<rparr>)\<rparr>, base_os)
   \<and> OsFile_seek 0 2 (a_file, base_os) =
       Ok () (a_file\<lparr>isOpen := True,
                 priv_f := Some (Stream \<lparr>s_path = ''/base/a.txt'', s_mode = ''r'', s_pos = 5,
                                          s_closed = False\<rparr>)\<rparr>, base_os)"
proof -
  have n: "priv_f a_file = None" by (simp add: a_file_def)
  have u: "f_url a_file = Some (asUrl ''/base/a.txt'')" by (simp add: a_file_def)
  have p: "filePath (asUrl ''/base/a.txt'') = Some ''/base/a.txt''" by (simp add: asUrl_def)
  have b: "builtin_open base_os ''/base/a.txt'' (priv_fileAccessMode a_file) (Some ''utf-8'') =
      Inr (\<lparr>s_path = ''/base/a.txt'', s_mode = ''r'', s_pos = 0, s_closed = False\<rparr>, base_os)"
    by (simp add: builtin_open_def mode_error_def a_file_def base_os_def Let_def)
  have c: "content base_os ''/base/a.txt'' = ''hello''" by (simp add: content_def base_os_def)
  note t3 = seek_unopened [OF n, where offset = 3 and whence = 0 and os = base_os
        and u = "asUrl ''/base/a.txt''" and path = "''/base/a.txt''" and os' = base_os
        and strm = "\<lparr>s_path = ''/base/a.txt'', s_mode = ''r'', s_pos = 0, s_closed = False\<rparr>"]
  note t2 = seek_unopened [OF n, where offset = 0 and whence = 2 and os = base_os
        and u = "asUrl ''/base/a.txt''" and path = "''/base/a.txt''" and os' = base_os
        and strm = "\<lparr>s_path = ''/base/a.txt'', s_mode = ''r'', s_pos = 0, s_closed = False\<rparr>"]
  have s0: "OsFile_seek 0 0 (a_file, base_os) = Ok () (a_file, base_os)"
    using t3 [THEN conjunct1] .
  have s1: "OsFile_tell (a_file, base_os) = Ok 0 (a_file, base_os)"
    using t3 [THEN conjunct2, THEN conjunct1] .
  have s3: "OsFile_seek 3 0 (a_file, base_os) =
       Ok () (a_file\<lparr>isOpen := True,
                 priv_f := Some (Stream \<lparr>s_path = ''/base/a.txt'', s_mode = ''r'', s_pos = 3,
                                          s_closed = False\<rparr>)\<rparr>, base_os)"
    using t3 [THEN conjunct2, THEN conjunct2, THEN conjunct2] u p b
    by (simp add: stream_seek_def is_binary_def)
  have s2: "OsFile_seek 0 2 (a_file, base_os) =
       Ok () (a_file\<lparr>isOpen := True,
                 priv_f := Some (Stream \<lparr>s_path = ''/base/a.txt'', s_mode = ''r'', s_pos = 5,
                                          s_closed = False\<rparr>)\<rparr>, base_os)"
    using t2 [THEN conjunct2, THEN conjunct2, THEN conjunct2] u p b c
    by (simp add: stream_seek_def is_binary_def)
  show ?thesis using s0 s1 s2 s3 by simp
qed

text \<open>
  C8. Destroying a file entity runs \<^verbatim>\<open>__del__\<close>, which is the call of \<^verbatim>\<open>close\<close>: where it
  returns, nothing is reported; where it raises, the exception is written to
  \<^verbatim>\<open>sys.stderr\<close> and goes no further. An entity with no stream is left as it is. An entity
  with an open stream has the close attempted: it ends marked not open and its stream is
  closed, and when the operating system reports an error for the close, that error is
  what is written.
\<close>

theorem destroy_suppresses:
  "(OsFile_del x = Ok () y \<longrightarrow> destroy x err = (y, err))
   \<and> (OsFile_del x = Raise e y \<longrightarrow> destroy x err = (y, err @ [e]))
   \<and> (priv_f s = None \<longrightarrow> destroy (s, os) err = ((s, os), err))
   \<and> (priv_f s = Some (Stream strm) \<longrightarrow> \<not> s_closed strm \<longrightarrow>
        destroy (s, os) err =
          (case close_fault os (s_path strm) of
             None \<Rightarrow> ((s\<lparr>isOpen := False, fileAccessMode := [], priv_f := None\<rparr>, os), err)
           | Some e' \<Rightarrow>
               ((s\<lparr>isOpen := False, fileAccessMode := [],
                    priv_f := Some (Stream (strm\<lparr>s_closed := True\<rparr>))\<rparr>, os), err @ [e'])))"
  by (auto simp add: destroy_def OsFile_del_def OsFile_close_def stream_close_def Let_def
      split: option.splits)

text \<open>
  With an entity holding an open stream on \<^verbatim>\<open>/base/b.txt\<close>, whose close fails with an
  I/O error, and with the entity of \<^verbatim>\<open>/base/a.txt\<close>, which holds no stream.
\<close>

theorem destroy_suppresses_witness:
  "destroy (b_file_open, base_os) [] =
     ((b_file_open\<lparr>isOpen := False, fileAccessMode := [],
                    priv_f := Some (Stream (b_stream\<lparr>s_closed := True\<rparr>))\<rparr>, base_os),
      [OSError ''Input/output error''])
   \<and> destroy (a_file, base_os) [] = ((a_file, base_os), [])"
proof -
  have f: "priv_f b_file_open = Some (Stream b_stream)" by (simp add: b_file_open_def)
  have c: "\<not> s_closed b_stream" by (simp add: b_stream_def)
  have n: "priv_f a_file = None" by (simp add: a_file_def)
  have q: "close_fault base_os (s_path b_stream) = Some (OSError ''Input/output error'')"
    by (simp add: base_os_def b_stream_def)
  note t = destroy_suppresses [where s = b_file_open and strm = b_stream and os = base_os
      and err = "[]"]
  note t' = destroy_suppresses [where s = a_file and os = base_os and err = "[]"]
  have 1: "destroy (b_file_open, base_os) [] =
     ((b_file_open\<lparr>isOpen := False, fileAccessMode := [],
                    priv_f := Some (Stream (b_stream\<lparr>s_closed := True\<rparr>))\<rparr>, base_os),
      [OSError ''Input/output error''])"
    using t [THEN conjunct2, THEN conjunct2, THEN conjunct2] f c q by simp
  have 2: "destroy (a_file, base_os) [] = ((a_file, base_os), [])"
    using t' [THEN conjunct2, THEN conjunct2, THEN conjunct1] n by simp
  show ?thesis using 1 2 by simp
qed

section \<open>Properties of the driver and of directories\<close>

text \<open>
  C4. Typed resolution raises exactly when the store has nothing at the resolved path, and
  then the error is \<^verbatim>\<open>NoFileException\<close> of that path, with nothing changed. Otherwise
  the new entity is a directory entity when the store has a directory there and a file
  entity when it has a file. The text of the URL plays no part beyond naming the path.
\<close>

theorem getFsItem_typed:
  "((\<exists>e y. OsFs_getFsItem self url (h, os) = Raise e y)
      \<longleftrightarrow> map_of (nodes os) (resolved_path url) = None)
   \<and> (map_of (nodes os) (resolved_path url) = None \<longrightarrow>
        OsFs_getFsItem self url (h, os) = Raise (NoFileException (resolved_path url)) (h, os))
   \<and> (map_of (nodes os) (resolved_path url) = Some Dir \<longrightarrow>
        OsFs_getFsItem self url (h, os) = Ok (DirRef (next_id h)) (snd (new_OsDirectory url self h), os))
   \<and> (map_of (nodes os) (resolved_path url) = Some (File b) \<longrightarrow>
        OsFs_getFsItem self url (h, os) = Ok (FileRef (next_id h)) (snd (new_OsFile url self h), os))"
  by (auto simp add: OsFs_getFsItem_def os_path_isdir_def os_path_exists_def
      new_OsDirectory_def new_OsFile_def)

text \<open>
  In the example store: nothing at \<^verbatim>\<open>/base/none.txt\<close>; \<^verbatim>\<open>/base/sub.txt\<close> is a directory
  in spite of its name and resolves to a directory entity; \<^verbatim>\<open>/base/a.txt\<close> is a file.
\<close>

theorem getFsItem_typed_witness:
  "OsFs_getFsItem 0 (asUrl ''/base/none.txt'') (empty_heap, base_os) =
     Raise (NoFileException ''/base/none.txt'') (empty_heap, base_os)
   \<and> OsFs_getFsItem 0 (asUrl ''/base/sub.txt'') (empty_heap, base_os) =
     Ok (DirRef 0) (snd (new_OsDirectory (asUrl ''/base/sub.txt'') 0 empty_heap), base_os)
   \<and> OsFs_getFsItem 0 (asUrl ''/base/a.txt'') (empty_heap, base_os) =
     Ok (FileRef 0) (snd (new_OsFile (asUrl ''/base/a.txt'') 0 empty_heap), base_os)"
  using getFsItem_typed [of 0 "asUrl ''/base/none.txt''" empty_heap base_os]
    getFsItem_typed [of 0 "asUrl ''/base/sub.txt''" empty_heap base_os]
    getFsItem_typed [of 0 "asUrl ''/base/a.txt''" empty_heap base_os "''hello''"]
  by (simp add: resolved_path_def asUrl_def base_os_def empty_heap_def)

text \<open>
  What holds of the cache of a directory: while \<^verbatim>\<open>_children\<close> is set, reading
  \<^verbatim>\<open>children\<close> gives the same generator and changes nothing; after \<^verbatim>\<open>markDirty\<close> the
  next read makes a new generator, which lists the store when it is iterated. A generator
  that has been iterated to its end yields nothing when iterated again.
\<close>

lemma children_cached:
  "dirs h d = Some dir \<Longrightarrow> priv_children dir = Some g \<Longrightarrow> OsDirectory_children d h = Ok g h"
  by (simp add: OsDirectory_children_def)

lemma children_after_markDirty:
  "dirs h d = Some dir \<Longrightarrow>
   OsDirectory_children d (markDirty d h) =
     Ok (next_id h)
       (h\<lparr>dirs := (dirs h)(d \<mapsto> dir\<lparr>priv_children := Some (next_id h)\<rparr>),
          gens := (gens h)(next_id h \<mapsto> Fresh (d_filesystem dir) d),
          next_id := Suc (next_id h)\<rparr>)"
  by (simp add: OsDirectory_children_def markDirty_def OsFs_dir_def)

lemma iterate_Finished: "gens h g = Some Finished \<Longrightarrow> iterate g (h, os) = Ok [] (h, os)"
  by (simp add: iterate_def)

lemma iterate_exhausts:
  "iterate g x = Ok items (h', os') \<Longrightarrow> gens h' g = Some Finished"
  by (cases x) (auto simp add: iterate_def finish_def
      split: option.splits generator.splits sum.splits res.splits)

lemma iterate_twice:
  "iterate g x = Ok items y \<Longrightarrow> iterate g y = Ok [] y"
  by (cases y) (auto dest: iterate_exhausts simp add: iterate_Finished)

text \<open>
  C3. The claim: two consecutive reads of \<^verbatim>\<open>children\<close>, with no \<^verbatim>\<open>markDirty\<close> between
  them, return the same cached sequence yielding the same child entities, a materialised
  snapshot. The code, for the driver's directory \<^verbatim>\<open>/base\<close> with three entries: the
  first read gives a generator, and iterating it yields the three entities; the second
  read gives the same generator, and iterating it yields nothing.
\<close>

theorem children_second_iteration_empty:
  "(case OsFs_init polling_host (Some ''/base'') True empty_heap of (d, h1) \<Rightarrow>
     (case OsDirectory_children d h1 of Raise e y \<Rightarrow> False | Ok g h2 \<Rightarrow>
       (case iterate g (h2, base_os) of Raise e y \<Rightarrow> False | Ok items1 (h3, os3) \<Rightarrow>
          (case OsDirectory_children d h3 of Raise e y \<Rightarrow> False | Ok g' h4 \<Rightarrow>
             (case iterate g' (h4, os3) of Raise e y \<Rightarrow> False | Ok items2 w \<Rightarrow>
                g' = g \<and> items1 = [FileRef 2, FileRef 3, DirRef 4] \<and> items2 = [])))))"
  by (simp add: OsFs_init_def empty_heap_def polling_host_def OsDirectory_children_def
      OsFs_dir_def iterate_def finish_def base_os_def os_listdir_def names_below_def
      os_path_join_def resolved_path_def asUrl_def child_def OsFs_getFsItem_def
      os_path_isdir_def os_path_exists_def new_OsFile_def new_OsDirectory_def Let_def)

text \<open>
  C9, as stated, fails: a driver configured at \<^verbatim>\<open>/tmp/x\<close> keeps that location, and its
  \<^verbatim>\<open>root\<close> is a directory entity at \<^verbatim>\<open>file://\<close>, with the empty file path.
\<close>

theorem root_ignores_configured_location:
  "(case OsFs_init polling_host (Some ''/tmp/x'') True empty_heap of (fs, h1) \<Rightarrow>
      (case OsFs_root fs h1 of (r, h2) \<Rightarrow>
         map_option d_url (dirs h2 fs) = Some (asUrl ''/tmp/x'')
         \<and> map_option d_url (dirs h2 r) = Some (asUrl ''file://'')
         \<and> map_option (filePath \<circ> d_url) (dirs h2 r) = Some (Some [])
         \<and> map_option d_url (dirs h2 r) \<noteq> map_option d_url (dirs h2 fs)))"
  by (simp add: OsFs_init_def OsFs_root_def new_OsDirectory_def empty_heap_def asUrl_def Let_def)

text \<open>
  C9, amended. Every access of \<^verbatim>\<open>root\<close> makes a new directory entity: its reference is
  the next unused one, so a second access gives another reference; the entity is at the
  fixed URL \<^verbatim>\<open>file://\<close>, whatever the driver's configured location, belongs to the driver
  and has no cached listing; and no object that existed before is changed, so the driver
  keeps no reference to it.
\<close>

theorem root_fresh:
  "fst (OsFs_root self h) = next_id h
   \<and> next_id (snd (OsFs_root self h)) = Suc (next_id h)
   \<and> dirs (snd (OsFs_root self h)) (next_id h) =
       Some \<lparr>d_url = asUrl ''file://'', d_filesystem = self, priv_children = None,
             caseSensitive = None\<rparr>
   \<and> fst (OsFs_root self (snd (OsFs_root self h))) \<noteq> fst (OsFs_root self h)
   \<and> (dirs (snd (OsFs_root self h)))(next_id h := None) = (dirs h)(next_id h := None)
   \<and> files (snd (OsFs_root self h)) = files h
   \<and> gens (snd (OsFs_root self h)) = gens h"
  by (simp add: OsFs_root_def new_OsDirectory_def)

lemma rmtree_base:
  "shutil_rmtree base_os ''/base'' =
     Raise (OSError ''Permission denied'')
       (base_os\<lparr>nodes := [(''/base'', Dir), (''/base/b.txt'', File []), (''/base/sub.txt'', Dir)]\<rparr>)"
  by (simp add: shutil_rmtree_def base_os_def os_listdir_def names_below_def os_path_join_def
      os_path_isdir_def os_remove_def drop_node_def eval_nat_numeral)

text \<open>
  C10. When the removal done by \<^verbatim>\<open>_delete\<close> (\<^verbatim>\<open>shutil.rmtree\<close> for a directory entity,
  \<^verbatim>\<open>os.remove\<close> otherwise) raises, \<^verbatim>\<open>_delete\<close> raises the same error and every object,
  the parent's cache included, is as before, whatever the removal has already taken from
  the store; \<^verbatim>\<open>_delete\<close> raises in no other case; and when the removal succeeds the
  parent is marked dirty.
\<close>

theorem delete_failure_keeps_cache:
  "((case fsItem of DirRef r \<Rightarrow> shutil_rmtree os fsId | FileRef r \<Rightarrow> os_remove os fsId)
       = Raise e os'
     \<longrightarrow> OsFs_delete fsItem fsId parent (h, os) = Raise e (h, os'))
   \<and> (OsFs_delete fsItem fsId parent (h, os) = Raise e (h', os')
     \<longrightarrow> h' = h
         \<and> (case fsItem of DirRef r \<Rightarrow> shutil_rmtree os fsId | FileRef r \<Rightarrow> os_remove os fsId)
             = Raise e os')
   \<and> ((case fsItem of DirRef r \<Rightarrow> shutil_rmtree os fsId | FileRef r \<Rightarrow> os_remove os fsId)
       = Ok () os'
     \<longrightarrow> OsFs_delete fsItem fsId parent (h, os) = Ok () (markDirty parent h, os'))"
  by (auto simp add: OsFs_delete_def split: res.splits)

text \<open>
  Removing \<^verbatim>\<open>/base/b.txt\<close> is refused by the operating system. Alone, nothing is
  removed; as part of the tree of \<^verbatim>\<open>/base\<close>, the file \<^verbatim>\<open>a.txt\<close> that comes before it
  is already gone from the store. In both cases the error is raised and the heap is the
  same, the directory entity 0 keeping its cached listing.
\<close>

theorem delete_failure_keeps_cache_witness:
  "OsFs_delete (FileRef 5) ''/base/b.txt'' 0 (cached_heap, base_os) =
     Raise (OSError ''Permission denied'') (cached_heap, base_os)
   \<and> map_option priv_children (dirs cached_heap 0) = Some (Some 1)
   \<and> OsFs_delete (DirRef 6) ''/base'' 0 (cached_heap, base_os) =
     Raise (OSError ''Permission denied'')
       (cached_heap,
        base_os\<lparr>nodes := [(''/base'', Dir), (''/base/b.txt'', File []), (''/base/sub.txt'', Dir)]\<rparr>)"
proof -
  have r: "os_remove base_os ''/base/b.txt'' = Raise (OSError ''Permission denied'') base_os"
    by (simp add: os_remove_def base_os_def)
  have 1: "OsFs_delete (FileRef 5) ''/base/b.txt'' 0 (cached_heap, base_os) =
     Raise (OSError ''Permission denied'') (cached_heap, base_os)"
    using delete_failure_keeps_cache [where fsItem = "FileRef 5" and fsId = "''/base/b.txt''"
        and os = base_os and os' = base_os and h = cached_heap and parent = 0
        and e = "OSError ''Permission denied''", THEN conjunct1] r
    by simp
  have 2: "OsFs_delete (DirRef 6) ''/base'' 0 (cached_heap, base_os) =
     Raise (OSError ''Permission denied'')
       (cached_heap,
        base_os\<lparr>nodes := [(''/base'', Dir), (''/base/b.txt'', File []), (''/base/sub.txt'', Dir)]\<rparr>)"
    using delete_failure_keeps_cache [where fsItem = "DirRef 6" and fsId = "''/base''"
        and os = base_os and h = cached_heap and parent = 0
        and os' = "base_os\<lparr>nodes := [(''/base'', Dir), (''/base/b.txt'', File []),
                                     (''/base/sub.txt'', Dir)]\<rparr>"
        and e = "OSError ''Permission denied''", THEN conjunct1] rmtree_base
    by simp
  have 3: "map_option priv_children (dirs cached_heap 0) = Some (Some 1)"
    by (simp add: cached_heap_def)
  show ?thesis using 1 2 3 by simp
qed

text \<open>Removing \<^verbatim>\<open>/base/a.txt\<close> succeeds and clears that cache.\<close>

lemma delete_success_marks_dirty:
  "(case OsFs_delete (FileRef 5) ''/base/a.txt'' 0 (cached_heap, base_os) of
      Raise e y \<Rightarrow> False
    | Ok u (h, os) \<Rightarrow> map_option priv_children (dirs h 0) = Some None
        \<and> map_of (nodes os) ''/base/a.txt'' = None)"
  by (simp add: OsFs_delete_def os_remove_def drop_node_def base_os_def markDirty_def
      cached_heap_def)

end
